theory Spec2Isabelle
  imports Complex_Main
begin

section \<open>The behaviour-inference and adaptation loop of backend/main.py\<close>

text \<open>
  The development embeds the part of \<^verbatim>\<open>backend/main.py\<close> that turns per-frame face
  detections into a stable focus state, classifies learning events, gates the
  intervention message and adapts the focus plan:
  \<^verbatim>\<open>AntiGravityOrchestrator.infer_learning_event\<close>, \<^verbatim>\<open>log_decision\<close>,
  \<^verbatim>\<open>generate_focus_plan\<close>, \<^verbatim>\<open>adapt_plan\<close> and the body of \<^verbatim>\<open>analyze_focus\<close> from the
  point where the face detector has produced \<^verbatim>\<open>faces\<close>.

  Conventions. The module-level dictionaries \<^verbatim>\<open>STUDENT_MODELS\<close>, \<^verbatim>\<open>LEARNING_EVENTS\<close> and
  \<^verbatim>\<open>DECISION_LOGS\<close> are maps from user ids, threaded through every function. A
  dictionary with a fixed set of keys is a record; a key that the code reads with
  \<^verbatim>\<open>.get(key, default)\<close> is an \<open>option\<close> field (\<open>None\<close>: the key is absent). Python
  floats and clock readings are rationals (seconds for the clock); every clock read of
  one call is the one instant \<open>now\<close> passed to it. Free-text fields that no branch reads
  (uuids, rationale and change messages, the debug image) are left out.
\<close>

subsection \<open>Python helpers\<close>

text \<open>\<^verbatim>\<open>xs[-n:]\<close>: the last \<open>n\<close> elements, all of them when there are fewer.\<close>

definition last_n :: "nat \<Rightarrow> 'a list \<Rightarrow> 'a list" where
  "last_n n xs = drop (length xs - n) xs"

text \<open>\<^verbatim>\<open>s.startswith(p)\<close> and the substring test \<^verbatim>\<open>p in s\<close> on strings.\<close>

fun startswith :: "string \<Rightarrow> string \<Rightarrow> bool" where
  "startswith s [] = True"
| "startswith [] (p # ps) = False"
| "startswith (c # cs) (p # ps) = (c = p \<and> startswith cs ps)"

fun str_contains :: "string \<Rightarrow> string \<Rightarrow> bool" where
  "str_contains [] p = (p = [])"
| "str_contains (c # cs) p = (startswith (c # cs) p \<or> str_contains cs p)"

text \<open>\<^verbatim>\<open>d.get(key, default)\<close> on an optional field.\<close>

definition get_or :: "'a option \<Rightarrow> 'a \<Rightarrow> 'a" where
  "get_or v d = (case v of None \<Rightarrow> d | Some x \<Rightarrow> x)"

subsection \<open>class LearningEventType\<close>

abbreviation SUSTAINED_FOCUS :: string where "SUSTAINED_FOCUS \<equiv> ''sustained_focus''"
abbreviation SHALLOW_ENGAGEMENT :: string where "SHALLOW_ENGAGEMENT \<equiv> ''shallow_engagement''"
abbreviation CONFUSION_SILENT :: string where "CONFUSION_SILENT \<equiv> ''confusion_without_asking''"
abbreviation COGNITIVE_OVERLOAD :: string where "COGNITIVE_OVERLOAD \<equiv> ''cognitive_overload''"
abbreviation DISTRACTION_PHONE :: string where "DISTRACTION_PHONE \<equiv> ''distraction_phone''"
abbreviation DISTRACTION_ENVIRONMENT :: string where
  "DISTRACTION_ENVIRONMENT \<equiv> ''distraction_environment''"
abbreviation FATIGUE :: string where "FATIGUE \<equiv> ''fatigue''"
abbreviation SUCCESSFUL_APPLICATION :: string where
  "SUCCESSFUL_APPLICATION \<equiv> ''successful_application''"
abbreviation DISENGAGEMENT_POST_EXPLANATION :: string where
  "DISENGAGEMENT_POST_EXPLANATION \<equiv> ''disengagement_after_explanation''"
abbreviation RECOVERY :: string where "RECOVERY \<equiv> ''recovery''"
abbreviation ATTENTION_DROP :: string where "ATTENTION_DROP \<equiv> ''attention_drop''"

definition LearningEventType :: "string list" where
  "LearningEventType =
     [SUSTAINED_FOCUS, SHALLOW_ENGAGEMENT, CONFUSION_SILENT, COGNITIVE_OVERLOAD,
      DISTRACTION_PHONE, DISTRACTION_ENVIRONMENT, FATIGUE, SUCCESSFUL_APPLICATION,
      DISENGAGEMENT_POST_EXPLANATION, RECOVERY, ATTENTION_DROP]"

subsection \<open>Behavioural signals and learning events\<close>

text \<open>
  The \<^verbatim>\<open>behavioral_signals\<close> dictionary. Its only producer is \<^verbatim>\<open>analyze_focus\<close>, which
  stores booleans and numbers; each of the six keys the classifier reads may be absent.
\<close>

record signals =
  sig_face_present :: "bool option"
  sig_eyes_open :: "bool option"
  sig_gaze_stable :: "bool option"
  sig_distraction_level :: "rat option"
  sig_time_on_content :: "rat option"
  sig_interaction_count :: "rat option"

record learning_event =
  timestamp :: rat
  event_type :: "string option"
  evidence :: signals
  confidence :: rat
  should_intervene :: bool
  intervention_type :: "string option"

type_synonym learning_events = "string \<rightharpoonup> learning_event list"

text \<open>
  \<^verbatim>\<open>infer_learning_event(user_id, behavioral_signals, timestamp)\<close>, lines 4139-4206. It
  returns the event and the updated \<^verbatim>\<open>LEARNING_EVENTS\<close>.
\<close>

definition infer_learning_event ::
  "string \<Rightarrow> signals \<Rightarrow> rat \<Rightarrow> learning_events \<Rightarrow> learning_event \<times> learning_events" where
  "infer_learning_event user_id behavioral_signals ts LE =
    (let event = \<lparr>timestamp = ts, event_type = None, evidence = behavioral_signals,
                   confidence = 0, should_intervene = False, intervention_type = None\<rparr>;
         history = last_n 10 (get_or (LE user_id) []);
         face_present = get_or (sig_face_present behavioral_signals) True;
         eyes_open = get_or (sig_eyes_open behavioral_signals) True;
         gaze_stable = get_or (sig_gaze_stable behavioral_signals) True;
         distraction_level = get_or (sig_distraction_level behavioral_signals) 0;
         time_on_content = get_or (sig_time_on_content behavioral_signals) 0;
         interaction_count = get_or (sig_interaction_count behavioral_signals) 0;
         event =
           (if \<not> face_present then
              event\<lparr>event_type := Some DISTRACTION_ENVIRONMENT, confidence := 9 / 10,
                    should_intervene := (distraction_level > 1 / 2),
                    intervention_type := Some ''gentle_refocus''\<rparr>
            else if time_on_content > 120 \<and> interaction_count = 0 then
              event\<lparr>event_type := Some COGNITIVE_OVERLOAD, confidence := 7 / 10,
                    should_intervene := True,
                    intervention_type := Some ''simplify_content''\<rparr>
            else if time_on_content < 10 \<and> gaze_stable then
              event\<lparr>event_type := Some SHALLOW_ENGAGEMENT, confidence := 6 / 10,
                    should_intervene := False\<rparr>
            else if gaze_stable \<and> eyes_open \<and> time_on_content > 30 then
              event\<lparr>event_type := Some SUSTAINED_FOCUS, confidence := 85 / 100,
                    should_intervene := False\<rparr>
            else event);
         recent_distractions =
           filter (\<lambda>e. str_contains (get_or (event_type e) []) ''distraction'') history;
         event =
           (if length recent_distractions > 0 \<and> event_type event = Some SUSTAINED_FOCUS then
              event\<lparr>event_type := Some RECOVERY, confidence := 75 / 100\<rparr>
            else event)
     in (event, LE(user_id \<mapsto> get_or (LE user_id) [] @ [event])))"

subsection \<open>Decision log\<close>

datatype py_error = KeyError string

record task =
  priority :: "int option"

record adaptation =
  a_type :: string
  new_duration :: "int option"
  new_break_interval :: "int option"
  a_timestamp :: "rat option"

record focus_plan =
  recommended_duration_minutes :: "int option"
  break_interval_minutes :: "int option"
  break_duration_minutes :: "int option"
  tasks :: "task list option"
  adaptations :: "adaptation list option"
  p_confidence :: "rat option"

record trigger_event =
  t_event_type :: "string option"
  t_distraction_type :: "string option"
  t_distraction_level :: "rat option"
  t_distraction_count :: "int option"

text \<open>The three shapes of \<^verbatim>\<open>triggering_evidence\<close> that the callers pass.\<close>

datatype triggering_evidence =
  EvSignals signals
  | EvTrigger trigger_event
  | EvPlanStats int int int

record decision =
  d_timestamp :: rat
  action :: string
  d_evidence :: triggering_evidence
  alternatives_considered :: "string list"
  d_user_id :: string

type_synonym decision_logs = "string \<rightharpoonup> decision list"

text \<open>
  \<^verbatim>\<open>log_decision\<close>, lines 4209-4237: append to the user's list, creating it when absent.
  The task it spawns (\<^verbatim>\<open>_log_to_opennote\<close>) has the body \<^verbatim>\<open>pass\<close>.
\<close>

definition log_decision ::
  "string \<Rightarrow> string \<Rightarrow> triggering_evidence \<Rightarrow> string list \<Rightarrow> rat \<Rightarrow> decision_logs
     \<Rightarrow> decision_logs" where
  "log_decision user_id act ev alternatives now DL =
     DL(user_id \<mapsto> get_or (DL user_id) [] @
          [\<lparr>d_timestamp = now, action = act, d_evidence = ev,
            alternatives_considered = alternatives, d_user_id = user_id\<rparr>])"

subsection \<open>Student model\<close>

record frame_state =
  is_distracted :: bool
  fs_type :: "string option"
  face_present :: bool

text \<open>
  An entry of \<^verbatim>\<open>STUDENT_MODELS\<close>. Three endpoints create entries, all with
  \<^verbatim>\<open>distraction_count\<close> and \<^verbatim>\<open>total_focus_time\<close>; only \<^verbatim>\<open>analyze_focus\<close> creates one
  with \<^verbatim>\<open>status_history\<close>, so that key is optional like those read through \<^verbatim>\<open>.get\<close>.
\<close>

record student_model =
  distraction_count :: int
  total_focus_time :: int
  status_history :: "frame_state list option"
  last_log_time :: "rat option"
  last_intervention_time :: "rat option"
  last_intervention_type :: "string option"
  last_distraction_status :: "bool option"
  current_focus_plan :: "focus_plan option"
  current_content_time :: "rat option"
  interaction_count :: "rat option"
  preferred_work_duration :: "int option"
  sessions_completed :: "int option"

type_synonym student_models = "string \<rightharpoonup> student_model"


subsection \<open>Plan generation and adaptation\<close>





text \<open>
  The cooldown check of \<^verbatim>\<open>adapt_plan\<close>, lines 4347-4351. An adaptation without a
  \<^verbatim>\<open>timestamp\<close> counts as made now.
\<close>

definition cooldown_active :: "adaptation list \<Rightarrow> rat \<Rightarrow> bool" where
  "cooldown_active adapts now =
     (if length adapts > 0 then
        (let last_adaptation = last adapts;
             last_time = get_or (a_timestamp last_adaptation) now
         in now - last_time < 120)
      else False)"

text \<open>The loop body of lines 4401-4403 on one task.\<close>

definition demote :: "task \<Rightarrow> task" where
  "demote t =
     (if get_or (priority t) 3 > 2 then t\<lparr>priority := Some (get_or (priority t) 3 - 1)\<rparr>
      else t)"

text \<open>
  \<^verbatim>\<open>adapt_plan(user_id, current_plan, trigger_event)\<close>, lines 4338-4428. The plan is a
  dictionary mutated in place: the result holds the plan as it is after the call. A plan
  without the key \<^verbatim>\<open>adaptations\<close> makes line 4417 raise after the durations have been
  written (\<open>Inl\<close>).
\<close>

definition adapt_plan ::
  "string \<Rightarrow> focus_plan \<Rightarrow> trigger_event \<Rightarrow> rat \<Rightarrow> student_models \<Rightarrow> decision_logs
     \<Rightarrow> (py_error \<times> focus_plan) + (focus_plan \<times> decision_logs)" where
  "adapt_plan user_id current_plan trigger now SM DL =
    (if cooldown_active (get_or (adaptations current_plan) []) now then Inr (current_plan, DL)
     else
       (let count = (case SM user_id of None \<Rightarrow> 0 | Some m \<Rightarrow> distraction_count m);
            distraction_type = t_distraction_type trigger;
            event_type = t_event_type trigger;
            original_duration = get_or (recommended_duration_minutes current_plan) 25;
            (adaptation, plan) =
              (if distraction_type = Some ''phone_use'' then
                 (let new_dur = max 10 (original_duration - 5);
                      new_break = min new_dur 15
                  in (Some \<lparr>a_type = ''reduce_focus_time'', new_duration = Some new_dur,
                             new_break_interval = Some new_break, a_timestamp = Some now\<rparr>,
                      current_plan\<lparr>recommended_duration_minutes := Some new_dur,
                                    break_interval_minutes := Some new_break\<rparr>))
               else if distraction_type = Some ''looking_away'' \<and> count > 3 then
                 (let new_dur = max 15 (original_duration - 10);
                      new_break = max 10 (original_duration div 2)
                  in (Some \<lparr>a_type = ''decompose_goal'', new_duration = Some new_dur,
                             new_break_interval = Some new_break, a_timestamp = Some now\<rparr>,
                      current_plan\<lparr>recommended_duration_minutes := Some new_dur,
                                    break_interval_minutes := Some new_break\<rparr>))
               else if event_type = Some COGNITIVE_OVERLOAD then
                 (Some \<lparr>a_type = ''simplify_tasks'', new_duration = None,
                        new_break_interval = None, a_timestamp = Some now\<rparr>,
                  current_plan\<lparr>tasks := map_option (map demote) (tasks current_plan)\<rparr>)
               else if event_type = Some SUSTAINED_FOCUS then
                 (let new_dur = min (original_duration + 5) 45
                  in (Some \<lparr>a_type = ''extend_block'', new_duration = Some new_dur,
                             new_break_interval = None, a_timestamp = Some now\<rparr>,
                      current_plan\<lparr>recommended_duration_minutes := Some new_dur\<rparr>))
               else (None, current_plan))
        in (case adaptation of
              None \<Rightarrow> Inr (plan, DL)
            | Some a \<Rightarrow>
                (case adaptations plan of
                   None \<Rightarrow> Inl (KeyError ''adaptations'', plan)
                 | Some done_so_far \<Rightarrow>
                     Inr (plan\<lparr>adaptations := Some (done_so_far @ [a])\<rparr>,
                          log_decision user_id (''adapt_plan_'' @ a_type a) (EvTrigger trigger)
                            [''No change'', ''End session early'', ''Switch modality'']
                            now DL)))))"

text \<open>The plan object after the call, whether it returned or raised.\<close>

definition plan_after :: "(py_error \<times> focus_plan) + (focus_plan \<times> decision_logs) \<Rightarrow> focus_plan" where
  "plan_after r = (case r of Inl (e, p) \<Rightarrow> p | Inr (p, DL) \<Rightarrow> p)"

subsection \<open>Teaching readiness\<close>


subsection \<open>The analysis tick\<close>



text \<open>
  The dictionary \<^verbatim>\<open>analyze_focus\<close> returns. \<open>error = Some e\<close> is the fallback of the
  \<^verbatim>\<open>except\<close> clause (lines 5058-5066), which has none of the keys after
  \<^verbatim>\<open>faces_detected\<close>.
\<close>

record response =
  distraction_detected :: bool
  distraction_type :: "string option"
  distraction_level :: rat
  intervention :: "string option"
  faces_detected :: nat
  learning_event :: "learning_event option"
  resp_should_intervene :: bool
  teaching_ready :: bool
  focus_plan :: "focus_plan option"
  plan_adapted :: bool
  error :: "py_error option"


definition msg_looking_away :: string where
  "msg_looking_away = ''Hey! I noticed you might be looking away. Let'' @ [CHR 0x27] @ ''s refocus!''"

definition msg_break :: string where
  "msg_break = ''You'' @ [CHR 0x27] @
     ''ve been distracted a few times. Want to take a 5-minute break?''"

definition msg_tired :: string where
  "msg_tired =
     ''I notice you might be getting tired. A short break could help you focus better.''"

definition msg_simplify :: string where
  "msg_simplify = ''Let'' @ [CHR 0x27] @
     ''s break this down into smaller pieces. What part would you like to focus on?''"




text \<open>Lines 4887 and 4891.\<close>

definition face_ratio :: "frame_state list \<Rightarrow> rat" where
  "face_ratio history =
     (if history \<noteq> [] then
        of_nat (length (filter face_present history)) / of_nat (length history)
      else 0)"

text \<open>
  Lines 4887-4903, the vote: the stable status, the stable type and the message the
  vote proposes.
\<close>

definition stable_state :: "frame_state list \<Rightarrow> bool \<times> string option \<times> string option" where
  "stable_state history =
     (let distracted_frames = filter is_distracted history
      in if face_ratio history \<ge> 6 / 10 then (False, None, None)
         else (True, Some ''looking_away'',
               if length distracted_frames \<ge> 3 then Some msg_looking_away else None))"

text \<open>Lines 4936-4947, the value of \<^verbatim>\<open>should_show_intervention\<close>.\<close>

definition should_show_intervention ::
  "bool \<Rightarrow> string option \<Rightarrow> bool \<Rightarrow> string option \<Rightarrow> rat \<Rightarrow> rat \<Rightarrow> bool" where
  "should_show_intervention final_status final_type last_status last_type last_time now =
     (if final_status then
        (if final_status \<noteq> last_status then True
         else if final_type \<noteq> last_type then True
         else if now - last_time > 8 then True
         else False)
      else False)"



text \<open>Lines 4910-4916, the signals handed to the classifier.\<close>

definition signals_of :: "student_model \<Rightarrow> nat \<Rightarrow> frame_state list \<Rightarrow> bool \<Rightarrow> signals" where
  "signals_of model faces history final_status =
     \<lparr>sig_face_present = Some (faces > 0), sig_eyes_open = None,
      sig_gaze_stable = Some (\<not> final_status),
      sig_distraction_level = Some (if history \<noteq> [] then 1 - face_ratio history else 0),
      sig_time_on_content = Some (get_or (current_content_time model) 30),
      sig_interaction_count = Some (get_or (interaction_count model) 1)\<rparr>"



text \<open>
  What becomes of the message the vote proposed: cleared by the gate (lines 4949-4951),
  replaced by the break suggestion once the counter exceeds five (lines 5011-5013),
  overridden by the learning event (lines 5016-5019). \<open>count\<close> is the counter after the
  increment of line 4970.
\<close>

definition choose_intervention ::
  "bool \<Rightarrow> bool \<Rightarrow> string option \<Rightarrow> int \<Rightarrow> learning_event \<Rightarrow> string option" where
  "choose_intervention final_status show proposed count ev =
     (if final_status then
        (let intervention = (if \<not> show then None else proposed);
             intervention =
               (if count > 5 \<and> intervention = None then Some msg_break else intervention)
         in if intervention_type ev = Some ''suggest_break'' then Some msg_tired
            else if intervention_type ev = Some ''simplify_content'' then Some msg_simplify
            else intervention)
      else proposed)"



subsection \<open>The user's entry and the frames of a run\<close>



section \<open>The specification's wording\<close>

text \<open>
  Section 4.2 of the specification gives the classifier as an ordered rule table in which
  the first matching rule wins, followed by an override. \<open>spec_rules\<close> is that table
  (condition, event type, confidence, whether to intervene), \<open>first_match\<close> the reading
  of the table and \<open>spec_override\<close> the relabelling to RECOVERY, where a
  distraction-type event is one of the two DISTRACTION members of the enumeration.
\<close>

definition first_match :: "(bool \<times> 'a) list \<Rightarrow> 'a \<Rightarrow> 'a" where
  "first_match rules unset = (case find fst rules of None \<Rightarrow> unset | Some (c, r) \<Rightarrow> r)"

definition spec_rules ::
  "bool \<Rightarrow> bool \<Rightarrow> bool \<Rightarrow> rat \<Rightarrow> rat \<Rightarrow> rat \<Rightarrow> (bool \<times> string option \<times> rat \<times> bool) list" where
  "spec_rules face eyes gaze level time_on_content interactions =
     [(face = False, Some DISTRACTION_ENVIRONMENT, 9 / 10, level > 5 / 10),
      (time_on_content > 120 \<and> interactions = 0, Some COGNITIVE_OVERLOAD, 7 / 10, True),
      (time_on_content < 10 \<and> gaze, Some SHALLOW_ENGAGEMENT, 6 / 10, False),
      (gaze \<and> eyes \<and> time_on_content > 30, Some SUSTAINED_FOCUS, 85 / 100, False)]"

definition spec_override ::
  "learning_event list \<Rightarrow> string option \<times> rat \<times> bool \<Rightarrow> string option \<times> rat \<times> bool" where
  "spec_override preceding r =
     (case r of (t, c, i) \<Rightarrow>
        if (\<exists>e \<in> set preceding. event_type e = Some DISTRACTION_PHONE \<or>
                                  event_type e = Some DISTRACTION_ENVIRONMENT)
           \<and> t = Some SUSTAINED_FOCUS
        then (Some RECOVERY, 75 / 100, i) else (t, c, i))"

text \<open>
  Every stored event has a type of the enumeration or none: the classifier writes no
  other (lemma \<open>infer_learning_event_known_types\<close>).
\<close>

definition known_types :: "learning_event list \<Rightarrow> bool" where
  "known_types es =
     list_all (\<lambda>e. case event_type e of None \<Rightarrow> True | Some t \<Rightarrow> t \<in> set LearningEventType) es"


section \<open>The event classifier\<close>

lemma distraction_names:
  "t \<in> set LearningEventType \<Longrightarrow>
   str_contains t ''distraction'' = (t = DISTRACTION_PHONE \<or> t = DISTRACTION_ENVIRONMENT)"
  unfolding LearningEventType_def by (elim disjE | simp)+

lemma recent_distractions_spec:
  assumes "known_types es"
  shows "(length (filter (\<lambda>e. str_contains (get_or (event_type e) []) ''distraction'') es) > 0) =
         (\<exists>e \<in> set es. event_type e = Some DISTRACTION_PHONE \<or>
                           event_type e = Some DISTRACTION_ENVIRONMENT)"
proof -
  have "str_contains (get_or (event_type e) []) ''distraction'' =
        (event_type e = Some DISTRACTION_PHONE \<or> event_type e = Some DISTRACTION_ENVIRONMENT)"
    if "e \<in> set es" for e
  proof (cases "event_type e")
    case None
    then show ?thesis by (simp add: get_or_def)
  next
    case (Some t)
    with that assms have "t \<in> set LearningEventType"
      by (auto simp: known_types_def list_all_iff)
    from distraction_names [OF this] Some show ?thesis by (simp add: get_or_def)
  qed
  then show ?thesis
    by (simp add: filter_empty_conv cong: filter_cong)
qed

lemma known_types_last_n: "known_types es \<Longrightarrow> known_types (last_n n es)"
  by (auto simp: known_types_def last_n_def list_all_iff dest: in_set_dropD)

lemma infer_learning_event_known_types:
  assumes "known_types (get_or (LE user_id) [])"
  shows "known_types (get_or (snd (infer_learning_event user_id s ts LE) user_id) [])"
  using assms
  by (simp add: infer_learning_event_def Let_def known_types_def get_or_def
      LearningEventType_def)

text \<open>
  C3. On every signals dictionary and every stored history, the classifier returns the
  event type, confidence and intervention flag of the first rule of the table that
  matches, in the order DISTRACTION_ENVIRONMENT, COGNITIVE_OVERLOAD, SHALLOW_ENGAGEMENT,
  SUSTAINED_FOCUS, and leaves the type unset when none does; a SUSTAINED_FOCUS result is
  then relabelled RECOVERY with confidence 0.75 when one of the user's last ten events
  is a distraction event.
\<close>

theorem infer_learning_event_priority:
  assumes "known_types (get_or (LE user_id) [])"
  shows "(let ev = fst (infer_learning_event user_id s ts LE)
          in (event_type ev, confidence ev, should_intervene ev)) =
         spec_override (last_n 10 (get_or (LE user_id) []))
           (first_match
              (spec_rules (get_or (sig_face_present s) True) (get_or (sig_eyes_open s) True)
                 (get_or (sig_gaze_stable s) True) (get_or (sig_distraction_level s) 0)
                 (get_or (sig_time_on_content s) 0) (get_or (sig_interaction_count s) 0))
              (None, 0, False))"
  using recent_distractions_spec [OF known_types_last_n [OF assms], of 10]
  by (simp add: infer_learning_event_def Let_def first_match_def spec_rules_def
      spec_override_def del: length_greater_0_conv)

text \<open>
  At a user whose one stored event is a distraction, steady signals with forty seconds
  on the content give RECOVERY.
\<close>

theorem infer_learning_event_priority_witness:
  "known_types
     [\<lparr>timestamp = 1, event_type = Some DISTRACTION_ENVIRONMENT,
       evidence = \<lparr>sig_face_present = Some False, sig_eyes_open = None,
                   sig_gaze_stable = None, sig_distraction_level = None,
                   sig_time_on_content = None, sig_interaction_count = None\<rparr>,
       confidence = 9 / 10, should_intervene = False,
       intervention_type = Some ''gentle_refocus''\<rparr>] \<and>
   (let ev = fst (infer_learning_event ''u''
                \<lparr>sig_face_present = Some True, sig_eyes_open = None,
                 sig_gaze_stable = Some True, sig_distraction_level = None,
                 sig_time_on_content = Some 40, sig_interaction_count = Some 1\<rparr> 2
                (Map.empty(''u'' \<mapsto>
                   [\<lparr>timestamp = 1, event_type = Some DISTRACTION_ENVIRONMENT,
                     evidence = \<lparr>sig_face_present = Some False, sig_eyes_open = None,
                                 sig_gaze_stable = None, sig_distraction_level = None,
                                 sig_time_on_content = None,
                                 sig_interaction_count = None\<rparr>,
                     confidence = 9 / 10, should_intervene = False,
                     intervention_type = Some ''gentle_refocus''\<rparr>])))
    in (event_type ev, confidence ev, should_intervene ev)) = (Some RECOVERY, 3 / 4, False)"
proof -
  let ?e = "\<lparr>timestamp = 1, event_type = Some DISTRACTION_ENVIRONMENT,
       evidence = \<lparr>sig_face_present = Some False, sig_eyes_open = None,
                   sig_gaze_stable = None, sig_distraction_level = None,
                   sig_time_on_content = None, sig_interaction_count = None\<rparr>,
       confidence = 9 / 10, should_intervene = False,
       intervention_type = Some ''gentle_refocus''\<rparr>"
  have k: "known_types [?e]"
    by (simp add: known_types_def LearningEventType_def)
  then have "known_types (get_or ((Map.empty(''u'' \<mapsto> [?e])) ''u'') [])"
    by (simp add: get_or_def)
  from infer_learning_event_priority
         [where LE = "Map.empty(''u'' \<mapsto> [?e])" and user_id = "''u''", OF this] k
  show ?thesis
    by (simp add: get_or_def last_n_def first_match_def spec_rules_def spec_override_def)
qed


section \<open>The analysis tick, stage by stage\<close>




lemma signals_of_history [simp]:
  "signals_of (m\<lparr>status_history := x\<rparr>) f hs st = signals_of m f hs st"
  by (simp add: signals_of_def)

lemma snd_case_option [simp]:
  "snd (case x of None \<Rightarrow> (a, w) | Some e \<Rightarrow> (b e, w)) = w"
  by (cases x) auto






section \<open>The sliding window\<close>











section \<open>The majority vote\<close>



section \<open>The distraction counter\<close>







section \<open>Plan adaptation\<close>

lemma cooldown_active_recent:
  "adapts \<noteq> [] \<Longrightarrow> a_timestamp (last adapts) = Some t \<Longrightarrow> now - t < 120 \<Longrightarrow>
   cooldown_active adapts now"
  by (simp add: cooldown_active_def get_or_def)

lemma adapt_plan_cooldown:
  "cooldown_active (get_or (adaptations p) []) now \<Longrightarrow>
   adapt_plan u p trig now SM DL = Inr (p, DL)"
  by (simp add: adapt_plan_def)

lemma adapt_plan_changed:
  assumes "adapt_plan u p trig now SM DL = Inr (p', DL')" and "p' \<noteq> p"
  shows "\<exists>done_so_far a. adaptations p' = Some (done_so_far @ [a]) \<and> a_timestamp a = Some now"
  using assms
  by (auto simp: adapt_plan_def Let_def split: if_splits option.splits)



text \<open>
  C4, as amended. A call whose plan has a latest adaptation stamped less than 120
  seconds before now returns the plan and the decision log as they are, whatever the
  trigger. Hence a call made less than 120 seconds after a call that changed the plan
  (that appended an adaptation) changes nothing. The cooldown is keyed on the last
  applied adaptation, not on the last call.
\<close>

theorem adapt_plan_cooldown_noop:
  "(adaptations p = Some adapts \<and> adapts \<noteq> [] \<and> a_timestamp (last adapts) = Some t \<and>
    now - t < 120 \<longrightarrow> adapt_plan u p trig now SM DL = Inr (p, DL)) \<and>
   (adapt_plan u p trig1 t1 SM DL = Inr (p1, DL1) \<and> p1 \<noteq> p \<and> t2 - t1 < 120 \<longrightarrow>
      adapt_plan u p1 trig2 t2 SM' DL1 = Inr (p1, DL1))"
proof (intro conjI impI)
  assume "adaptations p = Some adapts \<and> adapts \<noteq> [] \<and> a_timestamp (last adapts) = Some t \<and>
    now - t < 120" 
  then have "cooldown_active (get_or (adaptations p) []) now"
    using cooldown_active_recent [of adapts t now] by (simp add: get_or_def)
  then show "adapt_plan u p trig now SM DL = Inr (p, DL)"
    by (rule adapt_plan_cooldown)
next
  assume a: "adapt_plan u p trig1 t1 SM DL = Inr (p1, DL1) \<and> p1 \<noteq> p \<and> t2 - t1 < 120"
  with adapt_plan_changed [of u p trig1 t1 SM DL p1 DL1]
  obtain done_so_far x where "adaptations p1 = Some (done_so_far @ [x])" "a_timestamp x = Some t1"
    by blast
  with a have "cooldown_active (get_or (adaptations p1) []) t2"
    using cooldown_active_recent [of "done_so_far @ [x]" t1 t2] by (simp add: get_or_def)
  then show "adapt_plan u p1 trig2 t2 SM' DL1 = Inr (p1, DL1)"
    by (rule adapt_plan_cooldown)
qed

text \<open>
  The claim as stated fails: a first call whose trigger matches no rule leaves no
  timestamp, and a second call 60 seconds later with \<^verbatim>\<open>phone_use\<close> reduces the plan from
  25 to 20 minutes.
\<close>

theorem adapt_plan_twice_counterexample:
  "adapt_plan ''u''
     \<lparr>recommended_duration_minutes = Some 25, break_interval_minutes = Some 25,
      break_duration_minutes = Some 5, tasks = None, adaptations = Some [],
      p_confidence = Some (1 / 2)\<rparr>
     \<lparr>t_event_type = None, t_distraction_type = None, t_distraction_level = None,
      t_distraction_count = None\<rparr> 0 Map.empty Map.empty =
   Inr (\<lparr>recommended_duration_minutes = Some 25, break_interval_minutes = Some 25,
        break_duration_minutes = Some 5, tasks = None, adaptations = Some [],
        p_confidence = Some (1 / 2)\<rparr>, Map.empty) \<and>
   plan_after (adapt_plan ''u''
     \<lparr>recommended_duration_minutes = Some 25, break_interval_minutes = Some 25,
      break_duration_minutes = Some 5, tasks = None, adaptations = Some [],
      p_confidence = Some (1 / 2)\<rparr>
     \<lparr>t_event_type = None, t_distraction_type = Some ''phone_use'', t_distraction_level = None,
      t_distraction_count = None\<rparr> 60 Map.empty Map.empty) =
   \<lparr>recommended_duration_minutes = Some 20, break_interval_minutes = Some 15,
    break_duration_minutes = Some 5, tasks = None,
    adaptations = Some [\<lparr>a_type = ''reduce_focus_time'', new_duration = Some 20,
                         new_break_interval = Some 15, a_timestamp = Some 60\<rparr>],
    p_confidence = Some (1 / 2)\<rparr>"
  by (simp add: adapt_plan_def plan_after_def cooldown_active_def get_or_def Let_def log_decision_def)

text \<open>
  A \<^verbatim>\<open>phone_use\<close> call at 60 changes the plan; a call at 179, less than 120 seconds
  later, returns it unchanged.
\<close>

theorem adapt_plan_cooldown_noop_witness:
  "adapt_plan ''u''
     \<lparr>recommended_duration_minutes = Some 25, break_interval_minutes = Some 25,
      break_duration_minutes = Some 5, tasks = None, adaptations = Some [],
      p_confidence = Some (1 / 2)\<rparr>
     \<lparr>t_event_type = None, t_distraction_type = Some ''phone_use'', t_distraction_level = None,
      t_distraction_count = None\<rparr> 60 Map.empty Map.empty =
   Inr (\<lparr>recommended_duration_minutes = Some 20, break_interval_minutes = Some 15,
    break_duration_minutes = Some 5, tasks = None,
    adaptations = Some [\<lparr>a_type = ''reduce_focus_time'', new_duration = Some 20,
                         new_break_interval = Some 15, a_timestamp = Some 60\<rparr>],
    p_confidence = Some (1 / 2)\<rparr>,
    log_decision ''u'' ''adapt_plan_reduce_focus_time''
      (EvTrigger \<lparr>t_event_type = None, t_distraction_type = Some ''phone_use'',
         t_distraction_level = None, t_distraction_count = None\<rparr>)
      [''No change'', ''End session early'', ''Switch modality''] 60 Map.empty) \<and>
   adapt_plan ''u''
     \<lparr>recommended_duration_minutes = Some 20, break_interval_minutes = Some 15,
    break_duration_minutes = Some 5, tasks = None,
    adaptations = Some [\<lparr>a_type = ''reduce_focus_time'', new_duration = Some 20,
                         new_break_interval = Some 15, a_timestamp = Some 60\<rparr>],
    p_confidence = Some (1 / 2)\<rparr>
     \<lparr>t_event_type = Some SUSTAINED_FOCUS, t_distraction_type = Some ''phone_use'',
      t_distraction_level = None, t_distraction_count = None\<rparr> 179 Map.empty
     (log_decision ''u'' ''adapt_plan_reduce_focus_time''
      (EvTrigger \<lparr>t_event_type = None, t_distraction_type = Some ''phone_use'',
         t_distraction_level = None, t_distraction_count = None\<rparr>)
      [''No change'', ''End session early'', ''Switch modality''] 60 Map.empty) =
   Inr (\<lparr>recommended_duration_minutes = Some 20, break_interval_minutes = Some 15,
    break_duration_minutes = Some 5, tasks = None,
    adaptations = Some [\<lparr>a_type = ''reduce_focus_time'', new_duration = Some 20,
                         new_break_interval = Some 15, a_timestamp = Some 60\<rparr>],
    p_confidence = Some (1 / 2)\<rparr>,
    log_decision ''u'' ''adapt_plan_reduce_focus_time''
      (EvTrigger \<lparr>t_event_type = None, t_distraction_type = Some ''phone_use'',
         t_distraction_level = None, t_distraction_count = None\<rparr>)
      [''No change'', ''End session early'', ''Switch modality''] 60 Map.empty)"
proof -
  let ?p = "\<lparr>recommended_duration_minutes = Some 25, break_interval_minutes = Some 25,
      break_duration_minutes = Some 5, tasks = None, adaptations = Some [],
      p_confidence = Some (1 / 2)\<rparr>"
  let ?a = "\<lparr>a_type = ''reduce_focus_time'', new_duration = Some 20,
                         new_break_interval = Some 15, a_timestamp = Some (60::rat)\<rparr>"
  let ?p1 = "\<lparr>recommended_duration_minutes = Some 20, break_interval_minutes = Some 15,
    break_duration_minutes = Some 5, tasks = None, adaptations = Some [?a],
    p_confidence = Some (1 / 2)\<rparr>"
  let ?t1 = "\<lparr>t_event_type = None, t_distraction_type = Some ''phone_use'',
      t_distraction_level = None, t_distraction_count = None\<rparr>"
  let ?t2 = "\<lparr>t_event_type = Some SUSTAINED_FOCUS, t_distraction_type = Some ''phone_use'',
      t_distraction_level = None, t_distraction_count = None\<rparr>"
  let ?DL1 = "log_decision ''u'' ''adapt_plan_reduce_focus_time'' (EvTrigger ?t1)
      [''No change'', ''End session early'', ''Switch modality''] 60 Map.empty"
  have first: "adapt_plan ''u'' ?p ?t1 60 Map.empty Map.empty = Inr (?p1, ?DL1)"
    by (simp add: adapt_plan_def cooldown_active_def get_or_def Let_def)
  have ne: "?p1 \<noteq> ?p" by simp
  from adapt_plan_cooldown_noop
         [where p = ?p and u = "''u''" and ?trig1.0 = ?t1 and ?t1.0 = 60 and SM = Map.empty
            and DL = Map.empty and ?p1.0 = ?p1 and ?DL1.0 = ?DL1 and ?t2.0 = 179
            and ?trig2.0 = ?t2 and SM' = Map.empty] first ne
  have "adapt_plan ''u'' ?p1 ?t2 179 Map.empty ?DL1 = Inr (?p1, ?DL1)"
    by simp
  with first show ?thesis by simp
qed

section \<open>The intervention gate\<close>

lemma stable_state_type:
  "fst (stable_state h) \<Longrightarrow> fst (snd (stable_state h)) = Some ''looking_away''"
  by (simp add: stable_state_def Let_def split: if_splits)

lemma stable_state_proposed:
  "fst (stable_state h) \<Longrightarrow>
   snd (snd (stable_state h)) =
     (if length (filter is_distracted h) \<ge> 3 then Some msg_looking_away else None)"
  by (simp add: stable_state_def Let_def split: if_splits)

lemma should_show_transition:
  "fs \<Longrightarrow> \<not> ls \<Longrightarrow> should_show_intervention fs ft ls lt ltime now"
  by (simp add: should_show_intervention_def)

lemma should_show_same_type:
  "fs \<Longrightarrow> \<not> should_show_intervention fs ft ls lt ltime now \<Longrightarrow> lt = ft \<and> ls"
  by (simp add: should_show_intervention_def split: if_splits)

lemma should_show_cooldown:
  "now - ltime \<le> 8 \<Longrightarrow> \<not> should_show_intervention True ft True ft ltime now"
  by (simp add: should_show_intervention_def)

lemma infer_intervention_type:
  "current_content_time m = None \<Longrightarrow>
   intervention_type (fst (infer_learning_event u (signals_of m faces h fs) now LE)) \<noteq>
     Some ''suggest_break'' \<and>
   intervention_type (fst (infer_learning_event u (signals_of m faces h fs) now LE)) \<noteq>
     Some ''simplify_content''"
  by (simp add: infer_learning_event_def signals_of_def Let_def get_or_def)

lemma choose_intervention_shown:
  "choose_intervention True True (Some msg) c ev \<noteq> None"
  by (simp add: choose_intervention_def Let_def)

lemma choose_intervention_escalation:
  "c > 5 \<Longrightarrow> choose_intervention True sh proposed c ev \<noteq> None"
  by (cases proposed) (simp_all add: choose_intervention_def Let_def)

lemma choose_intervention_plain:
  "intervention_type ev \<noteq> Some ''suggest_break'' \<Longrightarrow>
   intervention_type ev \<noteq> Some ''simplify_content'' \<Longrightarrow>
   choose_intervention True sh proposed c ev =
     (if sh \<and> proposed \<noteq> None then proposed else if c > 5 then Some msg_break else None)"
  by (cases proposed) (simp_all add: choose_intervention_def Let_def)

lemma msg_distinct: "msg_break \<noteq> msg_looking_away"
  by (simp add: msg_break_def msg_looking_away_def)

lemma majority_distracted_frames:
  assumes "\<forall>f \<in> set h. is_distracted f = (\<not> face_present f)"
    and "5 \<le> length h" and "fst (stable_state h)"
  shows "3 \<le> length (filter is_distracted h)"
proof -
  let ?k = "length (filter face_present h)" and ?n = "length h"
  from assms(1) have "filter is_distracted h = filter (\<lambda>f. \<not> face_present f) h"
    by (intro filter_cong) auto
  then have d: "length (filter is_distracted h) = ?n - ?k"
    using sum_length_filter_compl [of face_present h] by simp
  from assms(2) have "h \<noteq> []" by auto
  with assms(3) have "(of_nat ?k :: rat) / of_nat ?n < 6 / 10"
    by (simp add: stable_state_def face_ratio_def Let_def split: if_splits)
  then have "(of_nat ?k :: rat) * 10 < 6 * of_nat ?n"
    using \<open>h \<noteq> []\<close> by (simp add: field_simps)
  then have "(of_nat (?k * 10) :: rat) < of_nat (6 * ?n)" by simp
  then have "?k * 10 < 6 * ?n" by (simp only: of_nat_less_iff)
  with assms(2) d show ?thesis by linarith
qed

end
